theory Spec2Isabelle
  imports Main "HOL-Library.Word" "HOL-Library.Sublist"
begin

section \<open>Go values: pointers, panics, errors\<close>

text \<open>
  A run of a Go function either returns or panics. The two panics of the modelled code
  are the dereference of a nil pointer and an index outside a slice.
\<close>

datatype panic = NilPointerDereference | IndexOutOfRange

datatype 'a outcome = Panic panic | Return 'a

text \<open>
  A pointer field is \<open>None\<close> for nil. Dereferencing (\<open>*p\<close>, or \<open>p.f\<close> through a
  pointer) panics on nil.
\<close>

fun deref :: "'a option \<Rightarrow> 'a outcome" where
  "deref None = Panic NilPointerDereference"
| "deref (Some v) = Return v"

text \<open>
  \<open>ReplicationGroup.Status\<close> is a \<open>*string\<close> that the snapshot reconciler hands to
  \<open>fmt.Sprintf\<close> as a pointer, so this one pointer keeps its address with its target.
\<close>

datatype 'a ptr = nil | Ptr nat 'a

fun load :: "'a ptr \<Rightarrow> 'a outcome" where
  "load nil = Panic NilPointerDereference"
| "load (Ptr a v) = Return v"

text \<open>\<open>xs[0]\<close> panics on an empty slice.\<close>

fun index0 :: "'a list \<Rightarrow> 'a outcome" where
  "index0 [] = Panic IndexOutOfRange"
| "index0 (x # xs) = Return x"

text \<open>
  The error values the code tells apart: an \<open>awserr.Error\<close> (code and message), a
  Kubernetes API status error (reason and message), \<open>wait.ErrWaitTimeout\<close>, an error
  made by \<open>errors.New\<close>, and an error wrapped by \<open>errors.Wrap\<close> with a message.
\<close>

datatype go_error =
    awserr_Error string string
  | StatusError string string
  | ErrWaitTimeout
  | errors_New string
  | Wrapped go_error string

fun Error :: "go_error \<Rightarrow> string" where
  "Error (awserr_Error code msg) = code @ '': '' @ msg"
| "Error (StatusError reason msg) = msg"
| "Error ErrWaitTimeout = ''timed out waiting for the condition''"
| "Error (errors_New msg) = msg"
| "Error (Wrapped e msg) = msg @ '': '' @ Error e"

text \<open>\<open>errors.Wrap(err, msg)\<close> and \<open>errors.Wrapf\<close> return nil when \<open>err\<close> is nil.\<close>

fun Wrap :: "go_error option \<Rightarrow> string \<Rightarrow> go_error option" where
  "Wrap None msg = None"
| "Wrap (Some e) msg = Some (Wrapped e msg)"

text \<open>The type assertion \<open>err.(awserr.Error)\<close>: the code of an AWS error, if it is one.\<close>

fun as_awserr :: "go_error option \<Rightarrow> string option" where
  "as_awserr (Some (awserr_Error code msg)) = Some code"
| "as_awserr _ = None"

fun IsNotFound :: "go_error \<Rightarrow> bool" where
  "IsNotFound (StatusError reason msg) = (reason = ''NotFound'')"
| "IsNotFound _ = False"

type_synonym int64 = "64 word"

text \<open>\<open>time.Duration\<close> counts nanoseconds.\<close>

type_synonym Duration = int

definition Second :: Duration where
  "Second = 1000000000"

definition Minute :: Duration where
  "Minute = 60 * Second"

section \<open>The data of the ElastiCache SDK and of the operator\<close>

record Endpoint =
  Address :: "string option"
  Port :: "int64 option"

record NodeGroupMember =
  CurrentRole :: "string option"
  CacheClusterId :: "string option"

record NodeGroup =
  PrimaryEndpoint :: "Endpoint option"
  NodeGroupMembers :: "NodeGroupMember option list"

record ReplicationGroup =
  ReplicationGroupId :: "string option"
  Status :: "string ptr"
  NodeGroups :: "NodeGroup option list"

record Snapshot =
  SnapshotName :: "string option"
  SnapshotStatus :: "string option"

record CreateReplicationGroupInput =
  AutomaticFailoverEnabled :: "bool option"
  Engine :: "string option"
  cfg_ReplicationGroupId :: "string option"
  CacheNodeType :: "string option"
  EngineVersion :: "string option"
  ReplicationGroupDescription :: "string option"
  NumCacheClusters :: "int64 option"
  SnapshotRetentionLimit :: "int64 option"

record DeleteReplicationGroupInput =
  del_ReplicationGroupId :: "string option"
  RetainPrimaryCluster :: "bool option"

record DescribeReplicationGroupsInput =
  desc_ReplicationGroupId :: "string option"

record DescribeReplicationGroupsOutput =
  ReplicationGroups :: "ReplicationGroup option list"

record DescribeSnapshotsInput =
  desc_SnapshotName :: "string option"

record DescribeSnapshotsOutput =
  Snapshots :: "Snapshot option list"

record CreateSnapshotInput =
  snap_CacheClusterId :: "string option"
  snap_SnapshotName :: "string option"

record RedisDeploymentDetails =
  URI :: string
  details_Port :: int64

record RedisCluster =
  DeploymentDetails :: "RedisDeploymentDetails option"

record StrategyConfig =
  Region :: string
  RawStrategy :: string

record AWSCredentials =
  AccessKeyID :: string
  SecretAccessKey :: string

text \<open>
  The Kubernetes objects embed \<open>ObjectMeta\<close>; a record extension is that embedding.
\<close>

record ObjectMeta =
  Name :: string
  Namespace :: string
  DeletionTimestamp :: "int option"
  Finalizers :: "string list"

record Redis = ObjectMeta +
  Spec_Tier :: string
  Status_Strategy :: string

datatype StatusPhase = PhaseNone | PhaseInProgress | PhaseComplete | PhaseFailed

record RedisSnapshot = ObjectMeta +
  Spec_ResourceName :: string
  Status_Phase :: StatusPhase
  Status_Message :: string

record NamespacedName =
  nn_Namespace :: string
  nn_Name :: string

record Result =
  Requeue :: bool
  RequeueAfter :: Duration

section \<open>The world outside the code\<close>

text \<open>
  Every collaborator of the two source files is an interface or a package that is not
  part of them: the Kubernetes client, the config and credential managers, the
  ElastiCache API, the name builders, the JSON decoder and the constants of other
  packages. They are parameters: an environment of operations over an abstract state
  \<open>'s\<close> of everything external. An operation with a Go result \<open>(*T, error)\<close> returns
  the pair as it is; nothing ties a nil pointer to a non-nil error.
\<close>

record 's ElastiCacheAPI =
  DescribeReplicationGroups ::
    "DescribeReplicationGroupsInput \<Rightarrow> 's \<Rightarrow> (DescribeReplicationGroupsOutput option \<times> go_error option) \<times> 's"
  CreateReplicationGroup ::
    "CreateReplicationGroupInput \<Rightarrow> 's \<Rightarrow> go_error option \<times> 's"
  DeleteReplicationGroup ::
    "DeleteReplicationGroupInput \<Rightarrow> 's \<Rightarrow> go_error option \<times> 's"
  DescribeSnapshots ::
    "DescribeSnapshotsInput \<Rightarrow> 's \<Rightarrow> (DescribeSnapshotsOutput option \<times> go_error option) \<times> 's"
  CreateSnapshot ::
    "CreateSnapshotInput \<Rightarrow> 's \<Rightarrow> go_error option \<times> 's"

text \<open>
  The calls a run makes are logged in order, with their arguments; \<open>Sleep\<close> is the
  wait between two polls.
\<close>

datatype call =
    Call_DescribeReplicationGroups DescribeReplicationGroupsInput
  | Call_CreateReplicationGroup CreateReplicationGroupInput
  | Call_DeleteReplicationGroup DeleteReplicationGroupInput
  | Call_DescribeSnapshots DescribeSnapshotsInput
  | Call_CreateSnapshot CreateSnapshotInput
  | Call_Client_Update Redis
  | Call_Client_Get_RedisSnapshot NamespacedName
  | Call_Client_Get_Redis NamespacedName
  | Call_UpdateSnapshotPhase StatusPhase string
  | Call_ReadStorageStrategy string string
  | Call_ReconcileProviderCredentials string
  | Call_BuildTimestampedInfraNameFromObjectCreation ObjectMeta
  | Call_BuildInfraNameFromObject ObjectMeta
  | Sleep Duration

record 's world =
  ext :: 's
  calls :: "call list"

definition invoke :: "call \<Rightarrow> ('s \<Rightarrow> 'a \<times> 's) \<Rightarrow> 's world \<Rightarrow> 'a \<times> 's world" where
  "invoke c f w = (case f (ext w) of (r, s') \<Rightarrow> (r, \<lparr>ext = s', calls = calls w @ [c]\<rparr>))"

definition sleep :: "Duration \<Rightarrow> 's world \<Rightarrow> 's world" where
  "sleep d w = w\<lparr>calls := calls w @ [Sleep d]\<rparr>"

record 's env =
  Client_Update :: "Redis \<Rightarrow> 's \<Rightarrow> go_error option \<times> 's"
  Client_Get_RedisSnapshot :: "NamespacedName \<Rightarrow> 's \<Rightarrow> (go_error + RedisSnapshot) \<times> 's"
  Client_Get_Redis :: "NamespacedName \<Rightarrow> 's \<Rightarrow> (go_error + Redis) \<times> 's"
  Client_Status_Update :: "RedisSnapshot \<Rightarrow> 's \<Rightarrow> go_error option \<times> 's"
  ReadStorageStrategy :: "string \<Rightarrow> string \<Rightarrow> 's \<Rightarrow> (StrategyConfig option \<times> go_error option) \<times> 's"
  ReconcileProviderCredentials :: "string \<Rightarrow> 's \<Rightarrow> (AWSCredentials option \<times> go_error option) \<times> 's"
  json_Unmarshal :: "string \<Rightarrow> CreateReplicationGroupInput \<times> go_error option"
  elasticache_New :: "string \<Rightarrow> AWSCredentials \<Rightarrow> 's ElastiCacheAPI"
  BuildTimestampedInfraNameFromObjectCreation :: "ObjectMeta \<Rightarrow> nat \<Rightarrow> 's \<Rightarrow> (string \<times> go_error option) \<times> 's"
  BuildInfraNameFromObject :: "ObjectMeta \<Rightarrow> nat \<Rightarrow> 's \<Rightarrow> (string \<times> go_error option) \<times> 's"
  DefaultFinalizer :: string
  DefaultRegion :: string
  DefaultAwsIdentifierLength :: nat
  AWSDeploymentStrategy :: string
  RedisResourceType :: string

text \<open>
  \<open>client.Get\<close> fills the object it is given; the model returns the filled object, and
  on an error the caller's object keeps the zero value it was created with.
\<close>

definition zero_Redis :: Redis where
  "zero_Redis = \<lparr>Name = [], Namespace = [], DeletionTimestamp = None, Finalizers = [],
     Spec_Tier = [], Status_Strategy = []\<rparr>"

section \<open>pkg/providers/aws/provider\_redis.go\<close>

definition defaultCacheNodeType :: string where
  "defaultCacheNodeType = ''cache.t2.micro''"

definition defaultEngineVersion :: string where
  "defaultEngineVersion = ''3.2.10''"

definition defaultDescription :: string where
  "defaultDescription = ''A Redis replication group''"

definition defaultNumCacheClusters :: int64 where
  "defaultNumCacheClusters = 2"

definition defaultSnapshotRetention :: int64 where
  "defaultSnapshotRetention = 30"

definition ErrCodeReplicationGroupNotFoundFault :: string where
  "ErrCodeReplicationGroupNotFoundFault = ''ReplicationGroupNotFoundFault''"

subsection \<open>The helpers of other packages\<close>

text \<open>
  Modelled from the spec: \<open>resources.AddFinalizer\<close> and \<open>resources.RemoveFinalizer\<close>
  (package pkg/resources, not among the sources). The spec calls the finalizer "a
  boolean-like tag attached to the cluster's desired-state object": adding makes the
  tag present, removing makes it absent, and neither touches anything else.
\<close>

definition AddFinalizer :: "'a ObjectMeta_scheme \<Rightarrow> string \<Rightarrow> 'a ObjectMeta_scheme" where
  "AddFinalizer om finalizer =
     (if finalizer \<in> set (Finalizers om) then om
      else om\<lparr>Finalizers := Finalizers om @ [finalizer]\<rparr>)"

definition RemoveFinalizer :: "'a ObjectMeta_scheme \<Rightarrow> string \<Rightarrow> 'a ObjectMeta_scheme" where
  "RemoveFinalizer om finalizer =
     om\<lparr>Finalizers := filter (\<lambda>f. f \<noteq> finalizer) (Finalizers om)\<rparr>"

text \<open>
  Modelled from the spec: \<open>wait.PollImmediate(interval, timeout, condition)\<close> of
  k8s.io/apimachinery, not among the sources. The spec: "poll every 5 seconds for up to
  5 minutes ... Exceeding the bound surfaces a timeout error to the caller". The
  condition runs at once and then again after each interval, as long as the time waited
  stays within the timeout; a condition that reports done ends the poll with no error,
  one that returns an error ends it with that error. The condition is a closure: \<open>v\<close>
  is the variable it captures.
\<close>

function poll ::
  "Duration \<Rightarrow> Duration \<Rightarrow> ('v \<Rightarrow> 's world \<Rightarrow> ((bool \<times> go_error option) outcome \<times> 'v) \<times> 's world)
     \<Rightarrow> Duration \<Rightarrow> 'v \<Rightarrow> 's world \<Rightarrow> (go_error option outcome \<times> 'v) \<times> 's world" where
  "poll interval timeout condition elapsed v w =
     (case condition v w of
        ((Panic p, v1), w1) \<Rightarrow> ((Panic p, v1), w1)
      | ((Return (done, Some err), v1), w1) \<Rightarrow> ((Return (Some err), v1), w1)
      | ((Return (True, None), v1), w1) \<Rightarrow> ((Return None, v1), w1)
      | ((Return (False, None), v1), w1) \<Rightarrow>
          (if 0 < interval \<and> elapsed + interval \<le> timeout
           then poll interval timeout condition (elapsed + interval) v1 (sleep interval w1)
           else ((Return (Some ErrWaitTimeout), v1), w1)))"
  by pat_completeness auto
termination
  by (relation "measure (\<lambda>(interval, timeout, condition, elapsed, v, w). nat (timeout - elapsed))") auto

declare poll.simps [simp del]

definition PollImmediate ::
  "Duration \<Rightarrow> Duration \<Rightarrow> ('v \<Rightarrow> 's world \<Rightarrow> ((bool \<times> go_error option) outcome \<times> 'v) \<times> 's world)
     \<Rightarrow> 'v \<Rightarrow> 's world \<Rightarrow> (go_error option outcome \<times> 'v) \<times> 's world" where
  "PollImmediate interval timeout condition v w = poll interval timeout condition 0 v w"

subsection \<open>getReplicationGroups\<close>

text \<open>The closure handed to \<open>PollImmediate\<close>; it captures \<open>rgs\<close>.\<close>

definition getReplicationGroups_condition ::
  "'s ElastiCacheAPI \<Rightarrow> ReplicationGroup option list \<Rightarrow> 's world
     \<Rightarrow> ((bool \<times> go_error option) outcome \<times> ReplicationGroup option list) \<times> 's world" where
  "getReplicationGroups_condition cacheSvc rgs w =
     (case invoke (Call_DescribeReplicationGroups \<lparr>desc_ReplicationGroupId = None\<rparr>)
             (DescribeReplicationGroups cacheSvc \<lparr>desc_ReplicationGroupId = None\<rparr>) w of
        ((listOutput, Some err), w1) \<Rightarrow> ((Return (False, None), rgs), w1)
      | ((listOutput, None), w1) \<Rightarrow>
          (case deref listOutput of
             Panic p \<Rightarrow> ((Panic p, rgs), w1)
           | Return out \<Rightarrow> ((Return (True, None), ReplicationGroups out), w1)))"

definition getReplicationGroups ::
  "'s ElastiCacheAPI \<Rightarrow> 's world \<Rightarrow> (ReplicationGroup option list \<times> go_error option) outcome \<times> 's world" where
  "getReplicationGroups cacheSvc w =
     (case PollImmediate (Second * 5) (Minute * 5) (getReplicationGroups_condition cacheSvc) [] w of
        ((Panic p, rgs), w1) \<Rightarrow> (Panic p, w1)
      | ((Return (Some err), rgs), w1) \<Rightarrow> (Return ([], Some err), w1)
      | ((Return None, rgs), w1) \<Rightarrow> (Return (rgs, None), w1))"

subsection \<open>verifyRedisConfig\<close>

definition verifyRedisConfig :: "CreateReplicationGroupInput \<Rightarrow> CreateReplicationGroupInput" where
  "verifyRedisConfig redisConfig =
     (let c1 = (if CacheNodeType redisConfig = None
                then redisConfig\<lparr>CacheNodeType := Some defaultCacheNodeType\<rparr> else redisConfig);
          c2 = (if ReplicationGroupDescription c1 = None
                then c1\<lparr>ReplicationGroupDescription := Some defaultDescription\<rparr> else c1);
          c3 = (if EngineVersion c2 = None
                then c2\<lparr>EngineVersion := Some defaultEngineVersion\<rparr> else c2);
          c4 = (if NumCacheClusters c3 = None
                then c3\<lparr>NumCacheClusters := Some defaultNumCacheClusters\<rparr> else c3)
      in if SnapshotRetentionLimit c4 = None
         then c4\<lparr>SnapshotRetentionLimit := Some defaultSnapshotRetention\<rparr> else c4)"

subsection \<open>createRedisCluster\<close>

text \<open>
  The search loop of \<open>createRedisCluster\<close> and \<open>deleteRedisCluster\<close>: the first group
  of the listing whose id is the configured one, nil when there is none.
\<close>

fun foundCache :: "ReplicationGroup option list \<Rightarrow> string option \<Rightarrow> ReplicationGroup option outcome" where
  "foundCache [] rid = Return None"
| "foundCache (c # cs) rid =
     (case deref c of
        Panic p \<Rightarrow> Panic p
      | Return g \<Rightarrow>
          (case deref (ReplicationGroupId g) of
             Panic p \<Rightarrow> Panic p
           | Return cid \<Rightarrow>
               (case deref rid of
                  Panic p \<Rightarrow> Panic p
                | Return wanted \<Rightarrow> if cid = wanted then Return c else foundCache cs rid)))"

text \<open>Lines 120 to 124: the primary endpoint of the first node group.\<close>

definition primaryEndpoint :: "ReplicationGroup \<Rightarrow> RedisCluster outcome" where
  "primaryEndpoint fc =
     (case index0 (NodeGroups fc) of
        Panic p \<Rightarrow> Panic p
      | Return ng0 \<Rightarrow>
          (case deref ng0 of
             Panic p \<Rightarrow> Panic p
           | Return ng \<Rightarrow>
               (case deref (PrimaryEndpoint ng) of
                  Panic p \<Rightarrow> Panic p
                | Return ep \<Rightarrow>
                    (case deref (Address ep) of
                       Panic p \<Rightarrow> Panic p
                     | Return address \<Rightarrow>
                         (case deref (Port ep) of
                            Panic p \<Rightarrow> Panic p
                          | Return port \<Rightarrow>
                              Return \<lparr>DeploymentDetails =
                                Some \<lparr>URI = address, details_Port = port\<rparr>\<rparr>)))))"

definition createRedisCluster ::
  "'s ElastiCacheAPI \<Rightarrow> CreateReplicationGroupInput \<Rightarrow> 's world
     \<Rightarrow> (RedisCluster option \<times> go_error option) outcome \<times> 's world" where
  "createRedisCluster cacheSvc redisConfig w =
     (case getReplicationGroups cacheSvc w of
        (Panic p, w1) \<Rightarrow> (Panic p, w1)
      | (Return (rgs, Some err), w1) \<Rightarrow> (Return (None, Some err), w1)
      | (Return (rgs, None), w1) \<Rightarrow>
          (case foundCache rgs (cfg_ReplicationGroupId redisConfig) of
             Panic p \<Rightarrow> (Panic p, w1)
           | Return (Some fc) \<Rightarrow>
               (case load (Status fc) of
                  Panic p \<Rightarrow> (Panic p, w1)
                | Return status \<Rightarrow>
                    if status = ''available''
                    then (case primaryEndpoint fc of
                            Panic p \<Rightarrow> (Panic p, w1)
                          | Return cluster \<Rightarrow> (Return (Some cluster, None), w1))
                    else (Return (None, None), w1))
           | Return None \<Rightarrow>
               (let verified = verifyRedisConfig redisConfig;
                    input = \<lparr>AutomaticFailoverEnabled = Some True,
                             Engine = Some ''redis'',
                             cfg_ReplicationGroupId = cfg_ReplicationGroupId verified,
                             CacheNodeType = CacheNodeType verified,
                             EngineVersion = EngineVersion verified,
                             ReplicationGroupDescription = ReplicationGroupDescription verified,
                             NumCacheClusters = NumCacheClusters verified,
                             SnapshotRetentionLimit = SnapshotRetentionLimit verified\<rparr>
                in case invoke (Call_CreateReplicationGroup input)
                          (CreateReplicationGroup cacheSvc input) w1 of
                     (Some err, w2) \<Rightarrow> (Return (None, Some err), w2)
                   | (None, w2) \<Rightarrow> (Return (None, None), w2))))"

subsection \<open>deleteRedisCluster\<close>

text \<open>
  The receiver \<open>p\<close> is the environment; \<open>r\<close> is a pointer the function writes
  through, so the object is returned with the result.
\<close>

definition deleteRedisCluster ::
  "'s env \<Rightarrow> 's ElastiCacheAPI \<Rightarrow> CreateReplicationGroupInput \<Rightarrow> Redis \<Rightarrow> 's world
     \<Rightarrow> (go_error option outcome \<times> Redis) \<times> 's world" where
  "deleteRedisCluster p cacheSvc redisConfig r w =
     (case getReplicationGroups cacheSvc w of
        (Panic pn, w1) \<Rightarrow> ((Panic pn, r), w1)
      | (Return (rgs, Some err), w1) \<Rightarrow> ((Return (Some err), r), w1)
      | (Return (rgs, None), w1) \<Rightarrow>
          (case foundCache rgs (cfg_ReplicationGroupId redisConfig) of
             Panic pn \<Rightarrow> ((Panic pn, r), w1)
           | Return None \<Rightarrow>
               (let r1 = RemoveFinalizer r (DefaultFinalizer p)
                in case invoke (Call_Client_Update r1) (Client_Update p r1) w1 of
                     (Some err, w2) \<Rightarrow>
                       ((Return (Wrap (Some err)
                           ''failed to update instance as part of finalizer reconcile''), r1), w2)
                   | (None, w2) \<Rightarrow> ((Return None, r1), w2))
           | Return (Some fc) \<Rightarrow>
               (case load (Status fc) of
                  Panic pn \<Rightarrow> ((Panic pn, r), w1)
                | Return status \<Rightarrow>
                    if status = ''available''
                    then
                      (let input = \<lparr>del_ReplicationGroupId = cfg_ReplicationGroupId redisConfig,
                                    RetainPrimaryCluster = Some False\<rparr>
                       in case invoke (Call_DeleteReplicationGroup input)
                                 (DeleteReplicationGroup cacheSvc input) w1 of
                            (err, w2) \<Rightarrow>
                              if err \<noteq> None \<and> as_awserr err = None
                              then (case deref (cfg_ReplicationGroupId redisConfig) of
                                      Panic pn \<Rightarrow> ((Panic pn, r), w2)
                                    | Return rid \<Rightarrow>
                                        ((Return (Wrap err
                                            (''failed to delete elasticache cluster '' @ rid)), r), w2))
                              else if err \<noteq> None \<and> as_awserr err \<noteq> None
                              then (if as_awserr err \<noteq> Some ErrCodeReplicationGroupNotFoundFault
                                    then (case deref (cfg_ReplicationGroupId redisConfig) of
                                            Panic pn \<Rightarrow> ((Panic pn, r), w2)
                                          | Return rid \<Rightarrow>
                                              ((Return (Wrap err
                                                  (''failed to delete elasticache cluster '' @ rid
                                                     @ '', aws error'')), r), w2))
                                    else ((Return None, r), w2))
                              else ((Return None, r), w2))
                    else ((Return None, r), w1))))"

subsection \<open>getRedisConfig, createCacheService, CreateRedis, DeleteRedis\<close>

definition getRedisConfig ::
  "'s env \<Rightarrow> Redis \<Rightarrow> 's world
     \<Rightarrow> (go_error + CreateReplicationGroupInput \<times> StrategyConfig) outcome \<times> 's world" where
  "getRedisConfig p r w =
     (case invoke (Call_ReadStorageStrategy (RedisResourceType p) (Spec_Tier r))
             (ReadStorageStrategy p (RedisResourceType p) (Spec_Tier r)) w of
        ((stratCfg, Some err), w1) \<Rightarrow>
          (Return (Inl (Wrapped err ''failed to read aws strategy config'')), w1)
      | ((stratCfg, None), w1) \<Rightarrow>
          (case deref stratCfg of
             Panic pn \<Rightarrow> (Panic pn, w1)
           | Return sc \<Rightarrow>
               (let sc1 = (if Region sc = [] then sc\<lparr>Region := DefaultRegion p\<rparr> else sc)
                in case json_Unmarshal p (RawStrategy sc1) of
                     (redisConfig, Some err) \<Rightarrow>
                       (Return (Inl (Wrapped err
                          ''failed to unmarshal aws redis cluster configuration'')), w1)
                   | (redisConfig, None) \<Rightarrow> (Return (Inr (redisConfig, sc1)), w1))))"

text \<open>
  \<open>createCacheService\<close> reads the credentials through their pointer and builds the
  client for the region; building the session is taken to succeed.
\<close>

definition createCacheService ::
  "'s env \<Rightarrow> StrategyConfig \<Rightarrow> AWSCredentials option \<Rightarrow> 's ElastiCacheAPI outcome" where
  "createCacheService p stratCfg providerCreds =
     (case deref providerCreds of
        Panic pn \<Rightarrow> Panic pn
      | Return creds \<Rightarrow> Return (elasticache_New p (Region stratCfg) creds))"

text \<open>Lines 70 to 89 of \<open>CreateRedis\<close>: the configuration, the credentials, the cluster.\<close>

definition CreateRedis_config ::
  "'s env \<Rightarrow> Redis \<Rightarrow> 's world
     \<Rightarrow> ((RedisCluster option \<times> go_error option) outcome \<times> Redis) \<times> 's world" where
  "CreateRedis_config p r w =
     (case getRedisConfig p r w of
        (Panic pn, w2) \<Rightarrow> ((Panic pn, r), w2)
      | (Return (Inl err), w2) \<Rightarrow>
          ((Return (None, Some (Wrapped err
              (''failed to retrieve aws redis cluster config for instance '' @ Name r))), r), w2)
      | (Return (Inr (redisConfig, stratCfg)), w2) \<Rightarrow>
          (let redisConfig1 =
                 (if cfg_ReplicationGroupId redisConfig = None
                  then redisConfig\<lparr>cfg_ReplicationGroupId := Some (Name r)\<rparr>
                  else redisConfig)
           in case invoke (Call_ReconcileProviderCredentials (Namespace r))
                     (ReconcileProviderCredentials p (Namespace r)) w2 of
                ((providerCreds, Some err), w3) \<Rightarrow>
                  ((Return (None, Some (Wrapped err
                      ''failed to reconcile s3 put object credentials'')), r), w3)
              | ((providerCreds, None), w3) \<Rightarrow>
                  (case createCacheService p stratCfg providerCreds of
                     Panic pn \<Rightarrow> ((Panic pn, r), w3)
                   | Return cacheSvc \<Rightarrow>
                       (case createRedisCluster cacheSvc redisConfig1 w3 of
                          (res, w4) \<Rightarrow> ((res, r), w4)))))"

text \<open>Lines 61 to 68, the finalizer, and then the rest.\<close>

definition CreateRedis ::
  "'s env \<Rightarrow> Redis \<Rightarrow> 's world
     \<Rightarrow> ((RedisCluster option \<times> go_error option) outcome \<times> Redis) \<times> 's world" where
  "CreateRedis p r w =
     (if DeletionTimestamp r = None
      then (let r1 = AddFinalizer r (DefaultFinalizer p)
            in case invoke (Call_Client_Update r1) (Client_Update p r1) w of
                 (Some err, w1) \<Rightarrow>
                   ((Return (None, Wrap (Some err) ''failed to add finalizer to instance''), r1), w1)
               | (None, w1) \<Rightarrow> CreateRedis_config p r1 w1)
      else CreateRedis_config p r w)"

definition DeleteRedis ::
  "'s env \<Rightarrow> Redis \<Rightarrow> 's world \<Rightarrow> (go_error option outcome \<times> Redis) \<times> 's world" where
  "DeleteRedis p r w =
     (case getRedisConfig p r w of
        (Panic pn, w1) \<Rightarrow> ((Panic pn, r), w1)
      | (Return (Inl err), w1) \<Rightarrow>
          ((Return (Some (Wrapped err
              (''failed to retrieve aws redis config for instance '' @ Name r))), r), w1)
      | (Return (Inr (redisConfig, stratCfg)), w1) \<Rightarrow>
          (let redisConfig1 =
                 (if cfg_ReplicationGroupId redisConfig = None
                  then redisConfig\<lparr>cfg_ReplicationGroupId := Some (Name r)\<rparr>
                  else redisConfig)
           in case invoke (Call_ReconcileProviderCredentials (Namespace r))
                     (ReconcileProviderCredentials p (Namespace r)) w1 of
                ((providerCreds, Some err), w2) \<Rightarrow>
                  ((Return (Some (Wrapped err ''failed to reconcile aws provider credentials'')), r), w2)
              | ((providerCreds, None), w2) \<Rightarrow>
                  (case createCacheService p stratCfg providerCreds of
                     Panic pn \<Rightarrow> ((Panic pn, r), w2)
                   | Return cacheSvc \<Rightarrow> deleteRedisCluster p cacheSvc redisConfig1 r w2)))"

section \<open>The snapshot controller (redissnapshot)\<close>

subsection \<open>The helpers of other packages\<close>

text \<open>
  Modelled from the spec: \<open>resources.UpdateSnapshotPhase\<close> (package pkg/resources, not
  among the sources). The spec: "set phase to ... with a ... message" and "Persistence
  errors (failing to update the finalizer marker or status) are surfaced immediately".
  It writes the phase and the message into the status of the object and persists the
  status through the client, returning the client's error.
\<close>

definition UpdateSnapshotPhase ::
  "'s env \<Rightarrow> RedisSnapshot \<Rightarrow> StatusPhase \<Rightarrow> string \<Rightarrow> 's world \<Rightarrow> go_error option \<times> 's world" where
  "UpdateSnapshotPhase p inst phase msg w =
     invoke (Call_UpdateSnapshotPhase phase msg)
       (Client_Status_Update p (inst\<lparr>Status_Phase := phase, Status_Message := msg\<rparr>)) w"

text \<open>
  \<open>fmt.Sprintf\<close> with the verb \<open>%s\<close> and an argument of type \<open>*string\<close>: the verb
  does not apply to a pointer, so the package prints the bad-verb form, the type and the
  address in hexadecimal.
\<close>

definition hex_digit :: "nat \<Rightarrow> char" where
  "hex_digit d = ''0123456789abcdef'' ! d"

fun hex :: "nat \<Rightarrow> string" where
  "hex n = (if n < 16 then [hex_digit n] else hex (n div 16) @ [hex_digit (n mod 16)])"

declare hex.simps [simp del]

fun Sprintf_s_pointer :: "string ptr \<Rightarrow> string" where
  "Sprintf_s_pointer nil = ''%!s(*string=<nil>)''"
| "Sprintf_s_pointer (Ptr a v) = ''%!s(*string=0x'' @ hex a @ '')''"

subsection \<open>Reconcile\<close>

definition no_Result :: Result where
  "no_Result = \<lparr>Requeue = False, RequeueAfter = 0\<rparr>"

text \<open>Lines 192 to 198: the first snapshot of the listing with the computed name.\<close>

fun foundSnapshot :: "Snapshot option list \<Rightarrow> string \<Rightarrow> Snapshot option outcome" where
  "foundSnapshot [] snapshotName = Return None"
| "foundSnapshot (c # cs) snapshotName =
     (case deref c of
        Panic pn \<Rightarrow> Panic pn
      | Return sn \<Rightarrow>
          (case deref (SnapshotName sn) of
             Panic pn \<Rightarrow> Panic pn
           | Return n \<Rightarrow> if n = snapshotName then Return c else foundSnapshot cs snapshotName))"

text \<open>Lines 215 to 221: the cache cluster id of the first member in the primary role.\<close>

fun cacheName :: "NodeGroupMember option list \<Rightarrow> string outcome" where
  "cacheName [] = Return []"
| "cacheName (i # members) =
     (case deref i of
        Panic pn \<Rightarrow> Panic pn
      | Return m \<Rightarrow>
          (case deref (CurrentRole m) of
             Panic pn \<Rightarrow> Panic pn
           | Return role \<Rightarrow>
               if role = ''primary'' then deref (CacheClusterId m) else cacheName members))"

text \<open>Lines 188 to 252: the snapshot and the replication group are described and acted on.\<close>

definition Reconcile_snapshot ::
  "'s env \<Rightarrow> 's ElastiCacheAPI \<Rightarrow> RedisSnapshot \<Rightarrow> string \<Rightarrow> string \<Rightarrow> 's world
     \<Rightarrow> (Result \<times> go_error option) outcome \<times> 's world" where
  "Reconcile_snapshot p cacheSvc instance snapshotName clusterName w =
     (case invoke (Call_DescribeSnapshots \<lparr>desc_SnapshotName = Some snapshotName\<rparr>)
             (DescribeSnapshots cacheSvc \<lparr>desc_SnapshotName = Some snapshotName\<rparr>) w of
        ((listOutput, err0), w1) \<Rightarrow>
     (case deref listOutput of
        Panic pn \<Rightarrow> (Panic pn, w1)
      | Return lo \<Rightarrow>
     (case foundSnapshot (Snapshots lo) snapshotName of
        Panic pn \<Rightarrow> (Panic pn, w1)
      | Return found \<Rightarrow>
     (case invoke (Call_DescribeReplicationGroups \<lparr>desc_ReplicationGroupId = Some clusterName\<rparr>)
             (DescribeReplicationGroups cacheSvc \<lparr>desc_ReplicationGroupId = Some clusterName\<rparr>) w1 of
        ((cacheOutput, err), w2) \<Rightarrow>
     (case deref cacheOutput of
        Panic pn \<Rightarrow> (Panic pn, w2)
      | Return co \<Rightarrow>
     (case index0 (ReplicationGroups co) of
        Panic pn \<Rightarrow> (Panic pn, w2)
      | Return rg0 \<Rightarrow>
     (case deref rg0 of
        Panic pn \<Rightarrow> (Panic pn, w2)
      | Return rg \<Rightarrow>
     (case load (Status rg) of
        Panic pn \<Rightarrow> (Panic pn, w2)
      | Return status \<Rightarrow>
          if status \<noteq> ''available''
          then
            (let errMsg = ''current replication group status is '' @ Sprintf_s_pointer (Status rg)
             in case UpdateSnapshotPhase p instance PhaseFailed errMsg w2 of
                  (Some updateErr, w3) \<Rightarrow> (Return (no_Result, Some updateErr), w3)
                | (None, w3) \<Rightarrow>
                    (Return (\<lparr>Requeue = True, RequeueAfter = Second * 60\<rparr>,
                             Wrap err ''failed to get cluster name''), w3))
          else
     (case index0 (NodeGroups rg) of
        Panic pn \<Rightarrow> (Panic pn, w2)
      | Return ng0 \<Rightarrow>
     (case deref ng0 of
        Panic pn \<Rightarrow> (Panic pn, w2)
      | Return ng \<Rightarrow>
     (case cacheName (NodeGroupMembers ng) of
        Panic pn \<Rightarrow> (Panic pn, w2)
      | Return cache \<Rightarrow>
     (case found of
        None \<Rightarrow>
          (let input = \<lparr>snap_CacheClusterId = Some cache, snap_SnapshotName = Some snapshotName\<rparr>
           in case invoke (Call_CreateSnapshot input) (CreateSnapshot cacheSvc input) w2 of
                (Some createErr, w3) \<Rightarrow>
                  (Return (no_Result,
                     Some (Wrapped createErr
                       (''error creating elasticache snapshot '' @ Error createErr))), w3)
              | (None, w3) \<Rightarrow>
                  (case UpdateSnapshotPhase p instance PhaseInProgress
                          ''snapshot creation in progress'' w3 of
                     (Some updateErr, w4) \<Rightarrow> (Return (no_Result, Some updateErr), w4)
                   | (None, w4) \<Rightarrow>
                       (Return (\<lparr>Requeue = True, RequeueAfter = Second * 60\<rparr>, None), w4)))
      | Some fs \<Rightarrow>
     (case deref (SnapshotStatus fs) of
        Panic pn \<Rightarrow> (Panic pn, w2)
      | Return snapshotStatus \<Rightarrow>
     (case (if snapshotStatus = ''available''
            then (case UpdateSnapshotPhase p instance PhaseComplete ''snapshot created'' w2 of
                    (Some updateErr, w3) \<Rightarrow> (Some (Return (no_Result, err)), w3)
                  | (None, w3) \<Rightarrow> (None, w3))
            else (None, w2)) of
        (Some returned, w3) \<Rightarrow> (returned, w3)
      | (None, w3) \<Rightarrow>
          (let msg = ''current snapshot status :  '' @ snapshotStatus
           in case UpdateSnapshotPhase p instance PhaseInProgress msg w3 of
                (Some updateErr, w4) \<Rightarrow> (Return (no_Result, Some updateErr), w4)
              | (None, w4) \<Rightarrow>
                  (Return (\<lparr>Requeue = True, RequeueAfter = Second * 60\<rparr>, None), w4))))))))))))))))"

text \<open>
  Lines 131 to 186: the strategy check, the region, the credentials, the client and the
  two names.
\<close>

definition Reconcile_strategy ::
  "'s env \<Rightarrow> RedisSnapshot \<Rightarrow> Redis \<Rightarrow> 's world \<Rightarrow> (Result \<times> go_error option) outcome \<times> 's world" where
  "Reconcile_strategy p instance redisCr w =
     (if Status_Strategy redisCr \<noteq> AWSDeploymentStrategy p
      then
        (let errMsg = ''none supported deployment strategy''
         in case UpdateSnapshotPhase p instance PhaseFailed errMsg w of
              (Some updateErr, w1) \<Rightarrow> (Return (no_Result, Some updateErr), w1)
            | (None, w1) \<Rightarrow> (Return (no_Result, Some (errors_New errMsg)), w1))
      else
     (case invoke (Call_ReadStorageStrategy (RedisResourceType p) (Spec_Tier redisCr))
             (ReadStorageStrategy p (RedisResourceType p) (Spec_Tier redisCr)) w of
        ((stratCfg, Some err), w1) \<Rightarrow>
          (case UpdateSnapshotPhase p instance PhaseFailed (Error err) w1 of
             (Some updateErr, w2) \<Rightarrow> (Return (no_Result, Some updateErr), w2)
           | (None, w2) \<Rightarrow> (Return (no_Result, Some err), w2))
      | ((stratCfg, None), w1) \<Rightarrow>
     (case deref stratCfg of
        Panic pn \<Rightarrow> (Panic pn, w1)
      | Return sc \<Rightarrow>
     (let sc1 = (if Region sc = [] then sc\<lparr>Region := DefaultRegion p\<rparr> else sc)
      in case invoke (Call_ReconcileProviderCredentials (Namespace redisCr))
                (ReconcileProviderCredentials p (Namespace redisCr)) w1 of
        ((providerCreds, Some err), w2) \<Rightarrow>
          (let errMsg = ''failed to reconcile elasticache credentials''
           in case UpdateSnapshotPhase p instance PhaseFailed errMsg w2 of
                (Some updateErr, w3) \<Rightarrow> (Return (no_Result, Some updateErr), w3)
              | (None, w3) \<Rightarrow> (Return (no_Result, Some (Wrapped err errMsg)), w3))
      | ((providerCreds, None), w2) \<Rightarrow>
     (case deref providerCreds of
        Panic pn \<Rightarrow> (Panic pn, w2)
      | Return creds \<Rightarrow>
     (let cacheSvc = elasticache_New p (Region sc1) creds
      in case invoke (Call_BuildTimestampedInfraNameFromObjectCreation (ObjectMeta.truncate instance))
                (BuildTimestampedInfraNameFromObjectCreation p (ObjectMeta.truncate instance)
                   (DefaultAwsIdentifierLength p)) w2 of
        ((snapshotName, Some err), w3) \<Rightarrow>
          (let errMsg = ''failed to generate snapshot name''
           in case UpdateSnapshotPhase p instance PhaseFailed errMsg w3 of
                (Some updateErr, w4) \<Rightarrow> (Return (no_Result, Some updateErr), w4)
              | (None, w4) \<Rightarrow> (Return (no_Result, Some (Wrapped err errMsg)), w4))
      | ((snapshotName, None), w3) \<Rightarrow>
     (case invoke (Call_BuildInfraNameFromObject (ObjectMeta.truncate redisCr))
             (BuildInfraNameFromObject p (ObjectMeta.truncate redisCr)
                (DefaultAwsIdentifierLength p)) w3 of
        ((clusterName, Some err), w4) \<Rightarrow>
          (let errMsg = ''failed to get cluster name''
           in case UpdateSnapshotPhase p instance PhaseFailed errMsg w4 of
                (Some updateErr, w5) \<Rightarrow> (Return (no_Result, Some updateErr), w5)
              | (None, w5) \<Rightarrow>
                  (Return (no_Result, Some (Wrapped err ''failed to get cluster name'')), w5))
      | ((clusterName, None), w4) \<Rightarrow>
          Reconcile_snapshot p cacheSvc instance snapshotName clusterName w4)))))))"

text \<open>
  Lines 97 to 129: the request object is fetched, a complete request returns at once,
  and the Redis object it names is fetched. After a failed fetch whose phase update
  succeeds the function does not return: it goes on to line 131 with the Redis object
  it created empty.
\<close>

definition Reconcile ::
  "'s env \<Rightarrow> NamespacedName \<Rightarrow> 's world \<Rightarrow> (Result \<times> go_error option) outcome \<times> 's world" where
  "Reconcile p request w =
     (case invoke (Call_Client_Get_RedisSnapshot request) (Client_Get_RedisSnapshot p request) w of
        (Inl err, w1) \<Rightarrow>
          if IsNotFound err then (Return (no_Result, None), w1)
          else (Return (no_Result, Some err), w1)
      | (Inr instance, w1) \<Rightarrow>
          if Status_Phase instance = PhaseComplete then (Return (no_Result, None), w1)
          else
            (let key = \<lparr>nn_Namespace = Namespace instance, nn_Name = Spec_ResourceName instance\<rparr>
             in case invoke (Call_Client_Get_Redis key) (Client_Get_Redis p key) w1 of
                  (Inl err, w2) \<Rightarrow>
                    (let errMsg = ''failed to get redis cr : '' @ Error err
                     in case UpdateSnapshotPhase p instance PhaseFailed errMsg w2 of
                          (Some updateErr, w3) \<Rightarrow> (Return (no_Result, Some updateErr), w3)
                        | (None, w3) \<Rightarrow> Reconcile_strategy p instance zero_Redis w3)
                | (Inr redisCr, w2) \<Rightarrow> Reconcile_strategy p instance redisCr w2))"

section \<open>Notions used to state the properties\<close>

text \<open>
  The external state after \<open>n\<close> calls of the describe-all operation, and the reply to
  the call after those: what a poll gets at its attempt number \<open>n\<close>, counted from 0.
\<close>

fun describe_state :: "'s ElastiCacheAPI \<Rightarrow> nat \<Rightarrow> 's \<Rightarrow> 's" where
  "describe_state api 0 s = s"
| "describe_state api (Suc n) s =
     describe_state api n (snd (DescribeReplicationGroups api \<lparr>desc_ReplicationGroupId = None\<rparr> s))"

definition describe_reply ::
  "'s ElastiCacheAPI \<Rightarrow> nat \<Rightarrow> 's \<Rightarrow> DescribeReplicationGroupsOutput option \<times> go_error option" where
  "describe_reply api n s =
     fst (DescribeReplicationGroups api \<lparr>desc_ReplicationGroupId = None\<rparr> (describe_state api n s))"

text \<open>The log of a poll that describes \<open>n + 1\<close> times, waiting between the attempts.\<close>

fun poll_calls :: "Duration \<Rightarrow> nat \<Rightarrow> call list" where
  "poll_calls interval 0 = [Call_DescribeReplicationGroups \<lparr>desc_ReplicationGroupId = None\<rparr>]"
| "poll_calls interval (Suc n) =
     Call_DescribeReplicationGroups \<lparr>desc_ReplicationGroupId = None\<rparr> # Sleep interval
       # poll_calls interval n"

text \<open>The time a log spends waiting, and the number of its create calls.\<close>

fun waited :: "call list \<Rightarrow> Duration" where
  "waited [] = 0"
| "waited (Sleep d # cs) = d + waited cs"
| "waited (c # cs) = waited cs"

fun is_create :: "call \<Rightarrow> bool" where
  "is_create (Call_CreateReplicationGroup input) = True"
| "is_create c = False"

definition creates :: "call list \<Rightarrow> nat" where
  "creates cs = length (filter is_create cs)"

text \<open>
  The id is the identity key of a replication group: in a listing every entry is a
  group with an id, and no id occurs twice.
\<close>

definition has_id :: "ReplicationGroup option \<Rightarrow> bool" where
  "has_id c = (case c of None \<Rightarrow> False | Some g \<Rightarrow> ReplicationGroupId g \<noteq> None)"

definition unique_ids :: "ReplicationGroup option list \<Rightarrow> bool" where
  "unique_ids rgs = (list_all has_id rgs \<and> distinct (map (map_option ReplicationGroupId) rgs))"

text \<open>The updates of the Redis object that a log holds, in order.\<close>

fun is_update :: "call \<Rightarrow> bool" where
  "is_update (Call_Client_Update r) = True"
| "is_update c = False"

definition updates :: "call list \<Rightarrow> call list" where
  "updates cs = filter is_update cs"

text \<open>
  The listing of a pass confirms the absence of the configured group: the poll returned
  a listing, and the search through it ended with no match.
\<close>

definition confirmed_absent :: "'s ElastiCacheAPI \<Rightarrow> CreateReplicationGroupInput \<Rightarrow> 's world \<Rightarrow> bool" where
  "confirmed_absent cacheSvc redisConfig w =
     (case fst (getReplicationGroups cacheSvc w) of
        Return (rgs, None) \<Rightarrow> foundCache rgs (cfg_ReplicationGroupId redisConfig) = Return None
      | Return (rgs, Some err) \<Rightarrow> False
      | Panic pn \<Rightarrow> False)"

subsection \<open>Test doubles\<close>

text \<open>
  An ElastiCache double whose state counts the describe calls for replication groups:
  the first \<open>lag\<close> of them fail (the access key is not registered yet), the later ones
  give \<open>rg_reply\<close>. The other operations give fixed replies.
\<close>

definition stub_api ::
  "nat \<Rightarrow> DescribeReplicationGroupsOutput option \<times> go_error option
     \<Rightarrow> DescribeSnapshotsOutput option \<times> go_error option
     \<Rightarrow> go_error option \<Rightarrow> go_error option \<Rightarrow> nat ElastiCacheAPI" where
  "stub_api lag rg_reply snap_reply create_err delete_err =
     \<lparr>DescribeReplicationGroups = (\<lambda>input n.
        (if n < lag then (None, Some (awserr_Error ''InvalidClientTokenId'' ''not registered yet''))
         else rg_reply, Suc n)),
      CreateReplicationGroup = (\<lambda>input n. (create_err, n)),
      DeleteReplicationGroup = (\<lambda>input n. (delete_err, n)),
      DescribeSnapshots = (\<lambda>input n. (snap_reply, n)),
      CreateSnapshot = (\<lambda>input n. (None, n))\<rparr>"

definition stub_env ::
  "go_error + RedisSnapshot \<Rightarrow> go_error + Redis \<Rightarrow> go_error option \<Rightarrow> nat ElastiCacheAPI \<Rightarrow> nat env" where
  "stub_env snapshot_object redis_object update_err api =
     \<lparr>Client_Update = (\<lambda>r n. (update_err, n)),
      Client_Get_RedisSnapshot = (\<lambda>key n. (snapshot_object, n)),
      Client_Get_Redis = (\<lambda>key n. (redis_object, n)),
      Client_Status_Update = (\<lambda>inst n. (None, n)),
      ReadStorageStrategy = (\<lambda>resource tier n. ((Some \<lparr>Region = [], RawStrategy = ''{}''\<rparr>, None), n)),
      ReconcileProviderCredentials = (\<lambda>ns n.
        ((Some \<lparr>AccessKeyID = ''key'', SecretAccessKey = ''secret''\<rparr>, None), n)),
      json_Unmarshal = (\<lambda>raw.
        (\<lparr>AutomaticFailoverEnabled = None, Engine = None, cfg_ReplicationGroupId = None,
          CacheNodeType = None, EngineVersion = None, ReplicationGroupDescription = None,
          NumCacheClusters = None, SnapshotRetentionLimit = None\<rparr>, None)),
      elasticache_New = (\<lambda>region creds. api),
      BuildTimestampedInfraNameFromObjectCreation = (\<lambda>om len n. ((''snap-'' @ Name om, None), n)),
      BuildInfraNameFromObject = (\<lambda>om len n. ((Name om, None), n)),
      DefaultFinalizer = ''finalizer'',
      DefaultRegion = ''eu-west-1'',
      DefaultAwsIdentifierLength = 40,
      AWSDeploymentStrategy = ''aws'',
      RedisResourceType = ''redis''\<rparr>"

definition foo_group :: "string \<Rightarrow> ReplicationGroup" where
  "foo_group status =
     \<lparr>ReplicationGroupId = Some ''foo'', Status = Ptr 824633802912 status,
      NodeGroups =
        [Some \<lparr>PrimaryEndpoint = Some \<lparr>Address = Some ''10.0.0.5'', Port = Some 6379\<rparr>,
               NodeGroupMembers =
                 [Some \<lparr>CurrentRole = Some ''primary'', CacheClusterId = Some ''foo-001''\<rparr>]\<rparr>]\<rparr>"

definition foo_listing :: "string \<Rightarrow> DescribeReplicationGroupsOutput option \<times> go_error option" where
  "foo_listing status = (Some \<lparr>ReplicationGroups = [Some (foo_group status)]\<rparr>, None)"

definition no_snapshots :: "DescribeSnapshotsOutput option \<times> go_error option" where
  "no_snapshots = (Some \<lparr>Snapshots = []\<rparr>, None)"

definition foo_config :: CreateReplicationGroupInput where
  "foo_config =
     \<lparr>AutomaticFailoverEnabled = None, Engine = None, cfg_ReplicationGroupId = Some ''foo'',
      CacheNodeType = None, EngineVersion = None, ReplicationGroupDescription = None,
      NumCacheClusters = None, SnapshotRetentionLimit = None\<rparr>"

definition foo_redis :: Redis where
  "foo_redis =
     \<lparr>Name = ''foo'', Namespace = ''ns'', DeletionTimestamp = None, Finalizers = [],
      Spec_Tier = ''production'', Status_Strategy = ''aws''\<rparr>"

definition foo_snapshot :: "StatusPhase \<Rightarrow> RedisSnapshot" where
  "foo_snapshot phase =
     \<lparr>Name = ''backup'', Namespace = ''ns'', DeletionTimestamp = None, Finalizers = [],
      Spec_ResourceName = ''foo'', Status_Phase = phase, Status_Message = []\<rparr>"

definition start :: "nat world" where
  "start = \<lparr>ext = 0, calls = []\<rparr>"

section \<open>Properties of the polling listing\<close>

lemma condition_fail:
  assumes "snd (describe_reply api 0 (ext w)) \<noteq> None"
  shows "getReplicationGroups_condition api v w =
     ((Return (False, None), v),
      \<lparr>ext = describe_state api 1 (ext w),
       calls = calls w @ [Call_DescribeReplicationGroups \<lparr>desc_ReplicationGroupId = None\<rparr>]\<rparr>)"
  using assms
  by (auto simp: getReplicationGroups_condition_def invoke_def describe_reply_def
      split: prod.splits option.splits)

lemma condition_ok:
  assumes "describe_reply api 0 (ext w) = (Some out, None)"
  shows "getReplicationGroups_condition api v w =
     ((Return (True, None), ReplicationGroups out),
      \<lparr>ext = describe_state api 1 (ext w),
       calls = calls w @ [Call_DescribeReplicationGroups \<lparr>desc_ReplicationGroupId = None\<rparr>]\<rparr>)"
  using assms
  by (auto simp: getReplicationGroups_condition_def invoke_def describe_reply_def
      split: prod.splits option.splits)

lemma poll_ok:
  assumes "0 < interval" "elapsed + int k * interval \<le> timeout"
    "\<forall>i<k. snd (describe_reply api i (ext w)) \<noteq> None"
    "describe_reply api k (ext w) = (Some out, None)"
  shows "poll interval timeout (getReplicationGroups_condition api) elapsed v w =
     ((Return None, ReplicationGroups out),
      \<lparr>ext = describe_state api (Suc k) (ext w), calls = calls w @ poll_calls interval k\<rparr>)"
  using assms
proof (induction k arbitrary: elapsed v w)
  case 0
  then show ?case
    by (subst poll.simps) (simp add: condition_ok)
next
  case (Suc k)
  let ?w1 = "\<lparr>ext = describe_state api 1 (ext w),
       calls = calls w @ [Call_DescribeReplicationGroups \<lparr>desc_ReplicationGroupId = None\<rparr>]\<rparr>"
  have f0: "snd (describe_reply api 0 (ext w)) \<noteq> None"
    using Suc.prems(3) by simp
  have c: "getReplicationGroups_condition api v w = ((Return (False, None), v), ?w1)"
    using f0 by (rule condition_fail)
  have t: "elapsed + interval \<le> timeout"
  proof -
    have "0 \<le> int k * interval" using Suc.prems(1) by simp
    then show ?thesis using Suc.prems(2) by (simp add: algebra_simps)
  qed
  have r: "\<forall>i<k. snd (describe_reply api i (ext (sleep interval ?w1))) \<noteq> None"
    using Suc.prems(3) by (auto simp: sleep_def describe_reply_def)
  have o: "describe_reply api k (ext (sleep interval ?w1)) = (Some out, None)"
    using Suc.prems(4) by (simp add: sleep_def describe_reply_def)
  have e: "(elapsed + interval) + int k * interval \<le> timeout"
    using Suc.prems(2) by (simp add: algebra_simps)
  have ih: "poll interval timeout (getReplicationGroups_condition api) (elapsed + interval) v (sleep interval ?w1) =
     ((Return None, ReplicationGroups out),
      \<lparr>ext = describe_state api (Suc k) (ext (sleep interval ?w1)),
       calls = calls (sleep interval ?w1) @ poll_calls interval k\<rparr>)"
    by (rule Suc.IH[OF Suc.prems(1) e r o])
  show ?case using ih
    by (subst poll.simps) (simp add: c t Suc.prems(1) sleep_def)
qed

lemma poll_timeout:
  assumes "0 < interval" "elapsed + int k * interval \<le> timeout"
    "timeout < elapsed + int (Suc k) * interval"
    "\<forall>i\<le>k. snd (describe_reply api i (ext w)) \<noteq> None"
  shows "poll interval timeout (getReplicationGroups_condition api) elapsed v w =
     ((Return (Some ErrWaitTimeout), v),
      \<lparr>ext = describe_state api (Suc k) (ext w), calls = calls w @ poll_calls interval k\<rparr>)"
  using assms
proof (induction k arbitrary: elapsed v w)
  case 0
  have f0: "snd (describe_reply api 0 (ext w)) \<noteq> None"
    using 0(4) by simp
  show ?case using 0(1,2,3)
    by (subst poll.simps) (simp add: condition_fail[OF f0])
next
  case (Suc k)
  let ?w1 = "\<lparr>ext = describe_state api 1 (ext w),
       calls = calls w @ [Call_DescribeReplicationGroups \<lparr>desc_ReplicationGroupId = None\<rparr>]\<rparr>"
  have f0: "snd (describe_reply api 0 (ext w)) \<noteq> None"
    using Suc.prems(4) by simp
  have c: "getReplicationGroups_condition api v w = ((Return (False, None), v), ?w1)"
    using f0 by (rule condition_fail)
  have t: "elapsed + interval \<le> timeout"
  proof -
    have "0 \<le> int k * interval" using Suc.prems(1) by simp
    then show ?thesis using Suc.prems(2) by (simp add: algebra_simps)
  qed
  have r: "\<forall>i\<le>k. snd (describe_reply api i (ext (sleep interval ?w1))) \<noteq> None"
  proof (intro allI impI)
    fix i assume "i \<le> k"
    then have "snd (describe_reply api (Suc i) (ext w)) \<noteq> None"
      using Suc.prems(4) by simp
    then show "snd (describe_reply api i (ext (sleep interval ?w1))) \<noteq> None"
      by (simp add: sleep_def describe_reply_def)
  qed
  have e: "(elapsed + interval) + int k * interval \<le> timeout"
    using Suc.prems(2) by (simp add: algebra_simps)
  have e2: "timeout < (elapsed + interval) + int (Suc k) * interval"
    using Suc.prems(3) by (simp add: algebra_simps)
  have ih: "poll interval timeout (getReplicationGroups_condition api) (elapsed + interval) v (sleep interval ?w1) =
     ((Return (Some ErrWaitTimeout), v),
      \<lparr>ext = describe_state api (Suc k) (ext (sleep interval ?w1)),
       calls = calls (sleep interval ?w1) @ poll_calls interval k\<rparr>)"
    by (rule Suc.IH[OF Suc.prems(1) e e2 r])
  show ?case using ih
    by (subst poll.simps) (simp add: c t Suc.prems(1) sleep_def)
qed

lemma waited_append: "waited (xs @ ys) = waited xs + waited ys"
  by (induction xs rule: waited.induct) auto

lemma condition_calls:
  "getReplicationGroups_condition api v w = (r, w1) \<Longrightarrow>
     calls w1 = calls w @ [Call_DescribeReplicationGroups \<lparr>desc_ReplicationGroupId = None\<rparr>]"
  by (auto simp: getReplicationGroups_condition_def invoke_def split: prod.splits option.splits outcome.splits)

lemma poll_creates:
  "poll interval timeout (getReplicationGroups_condition api) elapsed v w = (r, w1) \<Longrightarrow>
     creates (calls w1) = creates (calls w)"
proof (induction interval timeout "getReplicationGroups_condition api" elapsed v w arbitrary: r w1 rule: poll.induct)
  case (1 interval timeout elapsed v w)
  obtain rc vc wc where c: "getReplicationGroups_condition api v w = ((rc, vc), wc)"
    by (metis surj_pair)
  have cc: "creates (calls wc) = creates (calls w)"
    using condition_calls[OF c] by (simp add: creates_def)
  show ?case
  proof (cases "rc = Return (False, None) \<and> 0 < interval \<and> elapsed + interval \<le> timeout")
    case True
    then have p: "poll interval timeout (getReplicationGroups_condition api) (elapsed + interval) vc (sleep interval wc) = (r, w1)"
      using "1.prems" c by (subst (asm) poll.simps) simp
    have "creates (calls w1) = creates (calls (sleep interval wc))"
      using "1.hyps"[of "(rc, vc)" wc rc vc "(False, None)" False None r w1] c True p by simp
    then show ?thesis using cc by (simp add: sleep_def creates_def)
  next
    case False
    then have "w1 = wc"
      using "1.prems" c
      by (subst (asm) poll.simps) (auto split: outcome.splits option.splits bool.splits if_splits)
    then show ?thesis using cc by simp
  qed
qed

lemma poll_waited:
  "poll interval timeout (getReplicationGroups_condition api) elapsed v w = (r, w1) \<Longrightarrow>
     elapsed \<le> timeout \<Longrightarrow> waited (calls w1) \<le> waited (calls w) + (timeout - elapsed)"
proof (induction interval timeout "getReplicationGroups_condition api" elapsed v w arbitrary: r w1 rule: poll.induct)
  case (1 interval timeout elapsed v w)
  obtain rc vc wc where c: "getReplicationGroups_condition api v w = ((rc, vc), wc)"
    by (metis surj_pair)
  have cc: "waited (calls wc) = waited (calls w)"
    using condition_calls[OF c] by (simp add: waited_append)
  show ?case
  proof (cases "rc = Return (False, None) \<and> 0 < interval \<and> elapsed + interval \<le> timeout")
    case True
    then have p: "poll interval timeout (getReplicationGroups_condition api) (elapsed + interval) vc (sleep interval wc) = (r, w1)"
      using "1.prems" c by (subst (asm) poll.simps) simp
    have "waited (calls w1) \<le> waited (calls (sleep interval wc)) + (timeout - (elapsed + interval))"
      using "1.hyps"[of "(rc, vc)" wc rc vc "(False, None)" False None r w1] c True p by simp
    then show ?thesis using cc by (simp add: sleep_def waited_append)
  next
    case False
    then have "w1 = wc"
      using "1.prems" c
      by (subst (asm) poll.simps) (auto split: outcome.splits option.splits bool.splits if_splits)
    then show ?thesis using cc "1.prems" by simp
  qed
qed

lemma getReplicationGroups_succeeds:
  assumes "k \<le> 60" "\<forall>i<k. snd (describe_reply api i (ext w)) \<noteq> None"
    "describe_reply api k (ext w) = (Some out, None)"
  shows "getReplicationGroups api w =
     (Return (ReplicationGroups out, None),
      \<lparr>ext = describe_state api (Suc k) (ext w), calls = calls w @ poll_calls (Second * 5) k\<rparr>)"
proof -
  have "0 + int k * (Second * 5) \<le> Minute * 5"
    using assms(1) by (simp add: Second_def Minute_def)
  then show ?thesis
    using poll_ok[of "Second * 5" 0 k "Minute * 5" api w out "[]"] assms(2,3)
    by (simp add: getReplicationGroups_def PollImmediate_def Second_def)
qed

lemma getReplicationGroups_times_out:
  assumes "\<forall>i\<le>60. snd (describe_reply api i (ext w)) \<noteq> None"
  shows "getReplicationGroups api w =
     (Return ([], Some ErrWaitTimeout),
      \<lparr>ext = describe_state api 61 (ext w), calls = calls w @ poll_calls (Second * 5) 60\<rparr>)"
  using poll_timeout[of "Second * 5" 0 60 "Minute * 5" api w "[]"] assms
  by (simp add: getReplicationGroups_def PollImmediate_def Second_def Minute_def)

lemma getReplicationGroups_creates:
  "getReplicationGroups api w = (r, w1) \<Longrightarrow> creates (calls w1) = creates (calls w)"
  by (auto simp: getReplicationGroups_def PollImmediate_def dest: poll_creates
      split: prod.splits outcome.splits option.splits)

lemma getReplicationGroups_waited:
  "waited (calls (snd (getReplicationGroups api w))) \<le> waited (calls w) + Minute * 5"
proof -
  obtain r v w1 where p: "poll (Second * 5) (Minute * 5) (getReplicationGroups_condition api) 0 [] w = ((r, v), w1)"
    by (metis surj_pair)
  have "waited (calls w1) \<le> waited (calls w) + (Minute * 5 - 0)"
    by (rule poll_waited[OF p]) (simp add: Minute_def Second_def)
  moreover have "snd (getReplicationGroups api w) = w1"
    using p by (simp add: getReplicationGroups_def PollImmediate_def split: outcome.splits option.splits)
  ultimately show ?thesis by simp
qed

lemma waited_poll_calls: "waited (poll_calls d n) = int n * d"
  by (induction n) (simp_all add: algebra_simps)

lemma stub_state: "describe_state (stub_api lag rg sn ce de) i n = n + i"
  by (induction i arbitrary: n) (simp_all add: stub_api_def)

lemma stub_reply:
  "describe_reply (stub_api lag rg sn ce de) i n =
     (if n + i < lag then (None, Some (awserr_Error ''InvalidClientTokenId'' ''not registered yet''))
      else rg)"
  by (simp add: describe_reply_def stub_state) (simp add: stub_api_def)

lemma stub_listing:
  "getReplicationGroups (stub_api 0 (Some out, None) sn ce de) w =
     (Return (ReplicationGroups out, None),
      \<lparr>ext = Suc (ext w),
       calls = calls w @ [Call_DescribeReplicationGroups \<lparr>desc_ReplicationGroupId = None\<rparr>]\<rparr>)"
  using getReplicationGroups_succeeds[of 0 "stub_api 0 (Some out, None) sn ce de" w out]
  by (simp add: stub_reply) (simp add: stub_api_def)

text \<open>
  Claim C9. \<open>getReplicationGroups\<close> polls the describe-all call with an interval of 5
  seconds and a timeout of 5 minutes. Whatever errors the first \<open>k\<close> attempts return
  (\<open>k\<close> at most 60), it keeps polling, and at the first attempt that succeeds it returns
  the groups of that reply, having described \<open>k + 1\<close> times with a wait of 5 seconds
  between two attempts. If all 61 attempts fail it returns the timeout error. No run
  waits more than 5 minutes in all.
\<close>

theorem getReplicationGroups_polls:
  "(k \<le> 60 \<and> (\<forall>i<k. snd (describe_reply api i (ext w)) \<noteq> None)
      \<and> describe_reply api k (ext w) = (Some out, None)
     \<longrightarrow> getReplicationGroups api w =
          (Return (ReplicationGroups out, None),
           \<lparr>ext = describe_state api (Suc k) (ext w), calls = calls w @ poll_calls (Second * 5) k\<rparr>))
   \<and> ((\<forall>i\<le>60. snd (describe_reply api i (ext w)) \<noteq> None)
     \<longrightarrow> getReplicationGroups api w =
          (Return ([], Some ErrWaitTimeout),
           \<lparr>ext = describe_state api 61 (ext w), calls = calls w @ poll_calls (Second * 5) 60\<rparr>))
   \<and> waited (calls (snd (getReplicationGroups api w))) \<le> waited (calls w) + Minute * 5"
  using getReplicationGroups_succeeds[of k api w out] getReplicationGroups_times_out[of api w]
    getReplicationGroups_waited[of api w]
  by blast

theorem getReplicationGroups_polls_witness:
  "getReplicationGroups (stub_api 2 (foo_listing ''available'') no_snapshots None None) start =
     (Return ([Some (foo_group ''available'')], None),
      \<lparr>ext = 3, calls =
         [Call_DescribeReplicationGroups \<lparr>desc_ReplicationGroupId = None\<rparr>, Sleep 5000000000,
          Call_DescribeReplicationGroups \<lparr>desc_ReplicationGroupId = None\<rparr>, Sleep 5000000000,
          Call_DescribeReplicationGroups \<lparr>desc_ReplicationGroupId = None\<rparr>]\<rparr>)
   \<and> fst (getReplicationGroups (stub_api 100 (foo_listing ''available'') no_snapshots None None) start)
       = Return ([], Some ErrWaitTimeout)
   \<and> waited (calls (snd (getReplicationGroups
        (stub_api 100 (foo_listing ''available'') no_snapshots None None) start))) = 5 * Minute"
proof -
  have a: "getReplicationGroups (stub_api 2 (foo_listing ''available'') no_snapshots None None) start =
     (Return ([Some (foo_group ''available'')], None),
      \<lparr>ext = describe_state (stub_api 2 (foo_listing ''available'') no_snapshots None None)
               (Suc 2) (ext start),
       calls = calls start @ poll_calls (Second * 5) 2\<rparr>)"
    using getReplicationGroups_polls[of 2 "stub_api 2 (foo_listing ''available'') no_snapshots None None"
        start "\<lparr>ReplicationGroups = [Some (foo_group ''available'')]\<rparr>"]
    by (simp add: stub_reply start_def foo_listing_def)
  have b: "getReplicationGroups (stub_api 100 (foo_listing ''available'') no_snapshots None None) start =
          (Return ([], Some ErrWaitTimeout),
           \<lparr>ext = describe_state (stub_api 100 (foo_listing ''available'') no_snapshots None None)
                    61 (ext start),
            calls = calls start @ poll_calls (Second * 5) 60\<rparr>)"
    using getReplicationGroups_polls[of 0 "stub_api 100 (foo_listing ''available'') no_snapshots None None"
        start undefined]
    by (simp add: stub_reply start_def)
  show ?thesis using a b
    by (simp add: stub_state start_def Second_def Minute_def waited_poll_calls numeral_2_eq_2
        stub_api_def)
qed

section \<open>Properties of createRedisCluster\<close>

lemma foundCache_unique:
  assumes "unique_ids rgs" "Some g \<in> set rgs" "ReplicationGroupId g = Some rid"
  shows "foundCache rgs (Some rid) = Return (Some g)"
  using assms
proof (induction rgs)
  case Nil
  then show ?case by simp
next
  case (Cons c cs)
  from Cons.prems(1) obtain h cid where c: "c = Some h" "ReplicationGroupId h = Some cid"
    by (auto simp: unique_ids_def has_id_def split: option.splits)
  show ?case
  proof (cases "cid = rid")
    case True
    have "h = g"
    proof (rule ccontr)
      assume "h \<noteq> g"
      then have "Some g \<in> set cs" using Cons.prems(2) c by auto
      then have "Some (Some rid) \<in> set (map (map_option ReplicationGroupId) cs)"
        using Cons.prems(3) by force
      then show False using Cons.prems(1) c True by (simp add: unique_ids_def)
    qed
    then show ?thesis using c True by simp
  next
    case False
    then have "Some g \<in> set cs" using Cons.prems(2,3) c by auto
    moreover have "unique_ids cs" using Cons.prems(1) by (simp add: unique_ids_def)
    ultimately have "foundCache cs (Some rid) = Return (Some g)"
      using Cons.IH Cons.prems(3) by simp
    then show ?thesis using c False by simp
  qed
qed

lemma createRedisCluster_found_available:
  assumes "getReplicationGroups cacheSvc w = (Return (rgs, None), w1)"
    "foundCache rgs (cfg_ReplicationGroupId redisConfig) = Return (Some g)"
    "Status g = Ptr a ''available''"
    "NodeGroups g = Some ng # ngs" "PrimaryEndpoint ng = Some ep"
    "Address ep = Some address" "Port ep = Some port"
  shows "createRedisCluster cacheSvc redisConfig w =
     (Return (Some \<lparr>DeploymentDetails = Some \<lparr>URI = address, details_Port = port\<rparr>\<rparr>, None), w1)"
  using assms by (simp add: createRedisCluster_def primaryEndpoint_def)

lemma createRedisCluster_found_other:
  assumes "getReplicationGroups cacheSvc w = (Return (rgs, None), w1)"
    "foundCache rgs (cfg_ReplicationGroupId redisConfig) = Return (Some g)"
    "Status g = Ptr a status" "status \<noteq> ''available''"
  shows "createRedisCluster cacheSvc redisConfig w = (Return (None, None), w1)"
  using assms by (simp add: createRedisCluster_def)

text \<open>
  Claim C2 (idempotent creation). When the listing holds a replication group with the
  configured id and status available (the id being the identity key of the listing, and
  the group having a primary endpoint with an address and a port),
  \<open>createRedisCluster\<close> returns that endpoint with no error and adds no create call to
  the log; a second invocation that lists the same groups returns the same endpoint,
  again with no create call.
\<close>

theorem createRedisCluster_available:
  assumes "getReplicationGroups cacheSvc w = (Return (rgs, None), w1)"
    and "unique_ids rgs" and "Some g \<in> set rgs"
    and "ReplicationGroupId g = Some rid" and "cfg_ReplicationGroupId redisConfig = Some rid"
    and "Status g = Ptr a ''available''"
    and "NodeGroups g = Some ng # ngs" and "PrimaryEndpoint ng = Some ep"
    and "Address ep = Some address" and "Port ep = Some port"
  shows "createRedisCluster cacheSvc redisConfig w =
       (Return (Some \<lparr>DeploymentDetails = Some \<lparr>URI = address, details_Port = port\<rparr>\<rparr>, None), w1)
     \<and> creates (calls w1) = creates (calls w)
     \<and> (getReplicationGroups cacheSvc w1 = (Return (rgs, None), w2) \<longrightarrow>
          createRedisCluster cacheSvc redisConfig w1 =
            (Return (Some \<lparr>DeploymentDetails = Some \<lparr>URI = address, details_Port = port\<rparr>\<rparr>, None), w2)
          \<and> creates (calls w2) = creates (calls w))"
proof -
  have f: "foundCache rgs (cfg_ReplicationGroupId redisConfig) = Return (Some g)"
    using foundCache_unique[OF assms(2,3,4)] assms(5) by simp
  have first: "createRedisCluster cacheSvc redisConfig w =
       (Return (Some \<lparr>DeploymentDetails = Some \<lparr>URI = address, details_Port = port\<rparr>\<rparr>, None), w1)"
    by (rule createRedisCluster_found_available[OF assms(1) f assms(6-10)])
  have c1: "creates (calls w1) = creates (calls w)"
    by (rule getReplicationGroups_creates[OF assms(1)])
  have second: "createRedisCluster cacheSvc redisConfig w1 =
       (Return (Some \<lparr>DeploymentDetails = Some \<lparr>URI = address, details_Port = port\<rparr>\<rparr>, None), w2)
     \<and> creates (calls w2) = creates (calls w)"
    if l2: "getReplicationGroups cacheSvc w1 = (Return (rgs, None), w2)"
    using createRedisCluster_found_available[OF l2 f assms(6-10)]
      getReplicationGroups_creates[OF l2] c1 by simp
  show ?thesis using first c1 second by blast
qed

theorem createRedisCluster_available_witness:
  "createRedisCluster (stub_api 0 (foo_listing ''available'') no_snapshots None None) foo_config start =
     (Return (Some \<lparr>DeploymentDetails = Some \<lparr>URI = ''10.0.0.5'', details_Port = 6379\<rparr>\<rparr>, None),
      \<lparr>ext = 1, calls = [Call_DescribeReplicationGroups \<lparr>desc_ReplicationGroupId = None\<rparr>]\<rparr>)
   \<and> createRedisCluster (stub_api 0 (foo_listing ''available'') no_snapshots None None) foo_config
       \<lparr>ext = 1, calls = [Call_DescribeReplicationGroups \<lparr>desc_ReplicationGroupId = None\<rparr>]\<rparr> =
     (Return (Some \<lparr>DeploymentDetails = Some \<lparr>URI = ''10.0.0.5'', details_Port = 6379\<rparr>\<rparr>, None),
      \<lparr>ext = 2, calls = [Call_DescribeReplicationGroups \<lparr>desc_ReplicationGroupId = None\<rparr>,
                         Call_DescribeReplicationGroups \<lparr>desc_ReplicationGroupId = None\<rparr>]\<rparr>)"
  using createRedisCluster_available[of "stub_api 0 (foo_listing ''available'') no_snapshots None None"
      start "[Some (foo_group ''available'')]"
      "\<lparr>ext = 1, calls = [Call_DescribeReplicationGroups \<lparr>desc_ReplicationGroupId = None\<rparr>]\<rparr>"
      "foo_group ''available''" "''foo''" foo_config 824633802912
      "\<lparr>PrimaryEndpoint = Some \<lparr>Address = Some ''10.0.0.5'', Port = Some 6379\<rparr>,
        NodeGroupMembers = [Some \<lparr>CurrentRole = Some ''primary'', CacheClusterId = Some ''foo-001''\<rparr>]\<rparr>"
      "[]" "\<lparr>Address = Some ''10.0.0.5'', Port = Some 6379\<rparr>" "''10.0.0.5''" 6379
      "\<lparr>ext = 2, calls = [Call_DescribeReplicationGroups \<lparr>desc_ReplicationGroupId = None\<rparr>,
                         Call_DescribeReplicationGroups \<lparr>desc_ReplicationGroupId = None\<rparr>]\<rparr>"]
  by (simp add: foo_listing_def stub_listing start_def unique_ids_def has_id_def foo_group_def foo_config_def)

text \<open>
  Claim C3 (no duplicate create). When the listing holds a replication group with the
  configured id and a status other than available, \<open>createRedisCluster\<close> returns no
  result and no error, and adds no create call to the log.
\<close>

theorem createRedisCluster_not_available:
  assumes "getReplicationGroups cacheSvc w = (Return (rgs, None), w1)"
    and "unique_ids rgs" and "Some g \<in> set rgs"
    and "ReplicationGroupId g = Some rid" and "cfg_ReplicationGroupId redisConfig = Some rid"
    and "Status g = Ptr a status" and "status \<noteq> ''available''"
  shows "createRedisCluster cacheSvc redisConfig w = (Return (None, None), w1)
     \<and> creates (calls w1) = creates (calls w)"
proof -
  have f: "foundCache rgs (cfg_ReplicationGroupId redisConfig) = Return (Some g)"
    using foundCache_unique[OF assms(2,3,4)] assms(5) by simp
  show ?thesis
    using createRedisCluster_found_other[OF assms(1) f assms(6,7)]
      getReplicationGroups_creates[OF assms(1)] by simp
qed

theorem createRedisCluster_not_available_witness:
  "createRedisCluster (stub_api 0 (foo_listing ''creating'') no_snapshots None None) foo_config start =
     (Return (None, None),
      \<lparr>ext = 1, calls = [Call_DescribeReplicationGroups \<lparr>desc_ReplicationGroupId = None\<rparr>]\<rparr>)"
  using createRedisCluster_not_available[of "stub_api 0 (foo_listing ''creating'') no_snapshots None None"
      start "[Some (foo_group ''creating'')]"
      "\<lparr>ext = 1, calls = [Call_DescribeReplicationGroups \<lparr>desc_ReplicationGroupId = None\<rparr>]\<rparr>"
      "foo_group ''creating''" "''foo''" foo_config 824633802912 "''creating''"]
  by (simp add: foo_listing_def stub_listing start_def unique_ids_def has_id_def foo_group_def foo_config_def)

end
